theory Spec2Isabelle
  imports Complex_Main
begin

section \<open>Strings\<close>

text \<open>
  Python strings are sequences of code points. A \<^typ>\<open>char\<close> of this development stands
  for a code point below 256, which covers every character the patterns of
  \<^verbatim>\<open>server.py\<close> mention.

  \<open>isspace\<close> is Python's \<^verbatim>\<open>str.isspace\<close> on one character, the class that both
  \<^verbatim>\<open>str.rstrip()\<close> and the regular expression \<^verbatim>\<open>\s\<close> use: the ASCII white space
  \<^verbatim>\<open>\t \n \v \f \r\<close> and the blank, the separators 0x1C to 0x1F, and below 256 also
  0x85 and 0xA0. \<open>isdigit\<close> is \<^verbatim>\<open>\d\<close>, which below 256 is the ASCII digits.
\<close>

definition isspace :: "char \<Rightarrow> bool" where
  "isspace c = (c \<in> set [CHR 0x09, CHR 0x0A, CHR 0x0B, CHR 0x0C, CHR 0x0D,
                          CHR 0x1C, CHR 0x1D, CHR 0x1E, CHR 0x1F, CHR '' '',
                          CHR 0x85, CHR 0xA0])"

definition isdigit :: "char \<Rightarrow> bool" where
  "isdigit c = (c \<in> set ''0123456789'')"

text \<open>\<^verbatim>\<open>s.startswith(p)\<close>, with the prefix as first argument.\<close>

fun startswith :: "string \<Rightarrow> string \<Rightarrow> bool" where
  "startswith [] s = True"
| "startswith (p # ps) [] = False"
| "startswith (p # ps) (c # cs) = (p = c \<and> startswith ps cs)"

text \<open>\<^verbatim>\<open>p in s\<close>: the substring test.\<close>

fun contains :: "string \<Rightarrow> string \<Rightarrow> bool" where
  "contains p [] = (p = [])"
| "contains p (c # cs) = (startswith p (c # cs) \<or> contains p cs)"

text \<open>\<^verbatim>\<open>s.rstrip()\<close>: trailing white space removed.\<close>

definition rstrip :: "string \<Rightarrow> string" where
  "rstrip s = rev (dropWhile isspace (rev s))"

text \<open>
  \<^verbatim>\<open>s.replace(old, new)\<close>: the occurrences of \<open>old\<close> are replaced from left to right,
  never overlapping. With an empty \<open>old\<close>, Python puts \<open>new\<close> before every character and
  at the end.
\<close>

function replace :: "string \<Rightarrow> string \<Rightarrow> string \<Rightarrow> string" where
  "replace old new [] = (if old = [] then new else [])"
| "replace old new (c # cs) =
     (if old = [] then new @ c # replace old new cs
      else if startswith old (c # cs)
           then new @ replace old new (drop (length old) (c # cs))
           else c # replace old new cs)"
  by pat_completeness auto
termination
  by (relation "measure (\<lambda>(old, new, s). length s)") auto

text \<open>\<^verbatim>\<open>str(n)\<close> for an integer: decimal digits, with a minus sign when negative.\<close>

definition digit_char :: "nat \<Rightarrow> char" where
  "digit_char d = ''0123456789'' ! (d mod 10)"

function str_nat :: "nat \<Rightarrow> string" where
  "str_nat n = (if n < 10 then [digit_char n] else str_nat (n div 10) @ [digit_char (n mod 10)])"
  by pat_completeness auto
termination
  by (relation "measure id") auto

definition str_int :: "int \<Rightarrow> string" where
  "str_int i = (if i < 0 then CHR ''-'' # str_nat (nat (- i)) else str_nat (nat i))"

text \<open>
  \<^verbatim>\<open>int(s)\<close> and \<^verbatim>\<open>float(s)\<close> on the strings the patterns of the Log Monitor capture:
  digits for \<^verbatim>\<open>(\d+)\<close>, digits and dots for \<^verbatim>\<open>([\d\.]+)\<close>. On such a string \<^verbatim>\<open>int\<close>
  always succeeds; \<^verbatim>\<open>float\<close> raises \<^verbatim>\<open>ValueError\<close> (here \<open>None\<close>) unless the string has
  at most one dot and at least one digit. Strings with other characters are never passed
  by the source and are given \<open>None\<close>. The value of \<open>py_float\<close> is the decimal number that
  is written; Python keeps the double nearest to it. Python integers are unbounded; the
  refusal of recent interpreters to convert more than 4300 digits is left out.
\<close>

definition digit_val :: "char \<Rightarrow> nat" where
  "digit_val c = of_char c - 48"

definition digits_val :: "string \<Rightarrow> nat" where
  "digits_val s = foldl (\<lambda>a c. 10 * a + digit_val c) 0 s"

definition py_int :: "string \<Rightarrow> int option" where
  "py_int s = (if s \<noteq> [] \<and> list_all isdigit s then Some (int (digits_val s)) else None)"

definition py_float :: "string \<Rightarrow> rat option" where
  "py_float s =
     (if list_all (\<lambda>c. isdigit c \<or> c = CHR ''.'') s
         \<and> length (filter (\<lambda>c. c = CHR ''.'') s) \<le> 1
         \<and> filter isdigit s \<noteq> []
      then Some (of_nat (digits_val (filter isdigit s))
                 / 10 ^ length (filter isdigit (dropWhile (\<lambda>c. c \<noteq> CHR ''.'') s)))
      else None)"

section \<open>Regular expressions\<close>

text \<open>
  The three patterns of \<^verbatim>\<open>log_reader\<close> use only literal characters, the classes
  \<^verbatim>\<open>\s\<close>, \<^verbatim>\<open>\d\<close> and \<^verbatim>\<open>[\d\.]\<close> under the greedy \<^verbatim>\<open>*\<close> and \<^verbatim>\<open>+\<close>, and capturing
  groups. A pattern is the list of its items. \<open>re_match\<close> is the backtracking matcher of
  Python's \<^verbatim>\<open>re\<close> at one position: a greedy repetition takes the longest run first and
  gives characters back while the rest of the pattern fails. It returns the input that
  is left after the match and, for every group boundary, the input that was left when
  the boundary was passed. \<open>re_search\<close> is \<^verbatim>\<open>pattern.search\<close>: the match at the leftmost
  position that has one.
\<close>

datatype cclass = Space | Digit | Digit_or_dot

fun in_class :: "cclass \<Rightarrow> char \<Rightarrow> bool" where
  "in_class Space c = isspace c"
| "in_class Digit c = isdigit c"
| "in_class Digit_or_dot c = (isdigit c \<or> c = CHR ''.'')"

datatype re_item = Lit char | Star cclass | Plus cclass | GOpen nat | GClose nat

type_synonym re_marks = "(re_item \<times> string) list"

fun re_match :: "re_item list \<Rightarrow> string \<Rightarrow> (re_marks \<times> string) option" where
  "re_match [] s = Some ([], s)"
| "re_match (Lit c # r) [] = None"
| "re_match (Lit c # r) (x # s) = (if x = c then re_match r s else None)"
| "re_match (GOpen n # r) s =
     (case re_match r s of None \<Rightarrow> None | Some (ms, rest) \<Rightarrow> Some ((GOpen n, s) # ms, rest))"
| "re_match (GClose n # r) s =
     (case re_match r s of None \<Rightarrow> None | Some (ms, rest) \<Rightarrow> Some ((GClose n, s) # ms, rest))"
| "re_match (Star k # r) [] = re_match r []"
| "re_match (Star k # r) (x # s) =
     (if in_class k x
      then (case re_match (Star k # r) s of Some m \<Rightarrow> Some m | None \<Rightarrow> re_match r (x # s))
      else re_match r (x # s))"
| "re_match (Plus k # r) [] = None"
| "re_match (Plus k # r) (x # s) = (if in_class k x then re_match (Star k # r) s else None)"

fun re_search :: "re_item list \<Rightarrow> string \<Rightarrow> (re_marks \<times> string) option" where
  "re_search p [] = re_match p []"
| "re_search p (x # s) =
     (case re_match p (x # s) of Some m \<Rightarrow> Some m | None \<Rightarrow> re_search p s)"

text \<open>\<^verbatim>\<open>m.group(n)\<close>: the text between the two boundaries of group \<open>n\<close>.\<close>

definition group :: "nat \<Rightarrow> re_marks \<times> string \<Rightarrow> string option" where
  "group n m =
     (case (map_of (fst m) (GOpen n), map_of (fst m) (GClose n)) of
        (Some a, Some b) \<Rightarrow> Some (take (length a - length b) a)
      | _ \<Rightarrow> None)"

definition lits :: "string \<Rightarrow> re_item list" where
  "lits w = map Lit w"

text \<open>
  \<^verbatim>\<open>prompt eval time\s*=\s*[\d\.]+\s*ms\s*/\s*\d+\s*tokens\s*\(\s*[\d\.]+\s*ms per token,\s*([\d\.]+)\s*tokens per second\)\<close>
\<close>

definition re_prompt :: "re_item list" where
  "re_prompt =
     lits ''prompt eval time'' @ [Star Space] @ lits ''='' @ [Star Space, Plus Digit_or_dot, Star Space]
     @ lits ''ms'' @ [Star Space] @ lits ''/'' @ [Star Space, Plus Digit, Star Space]
     @ lits ''tokens'' @ [Star Space] @ lits ''('' @ [Star Space, Plus Digit_or_dot, Star Space]
     @ lits ''ms per token,'' @ [Star Space, GOpen 1, Plus Digit_or_dot, GClose 1, Star Space]
     @ lits ''tokens per second)''"

text \<open>
  \<^verbatim>\<open>\s+eval time\s*=\s*[\d\.]+\s*ms\s*/\s*(\d+)\s*tokens\s*\(\s*[\d\.]+\s*ms per token,\s*([\d\.]+)\s*tokens per second\)\<close>
\<close>

definition re_eval :: "re_item list" where
  "re_eval =
     [Plus Space] @ lits ''eval time'' @ [Star Space] @ lits ''='' @ [Star Space, Plus Digit_or_dot, Star Space]
     @ lits ''ms'' @ [Star Space] @ lits ''/'' @ [Star Space, GOpen 1, Plus Digit, GClose 1, Star Space]
     @ lits ''tokens'' @ [Star Space] @ lits ''('' @ [Star Space, Plus Digit_or_dot, Star Space]
     @ lits ''ms per token,'' @ [Star Space, GOpen 2, Plus Digit_or_dot, GClose 2, Star Space]
     @ lits ''tokens per second)''"

text \<open>\<^verbatim>\<open>stop processing: n_tokens = (\d+)\<close>\<close>

definition re_release :: "re_item list" where
  "re_release = lits ''stop processing: n_tokens = '' @ [GOpen 1, Plus Digit, GClose 1]"

section \<open>Configuration Store\<close>

text \<open>
  \<^verbatim>\<open>ConfigManager\<close> keeps the mapping from model keys to model entries and the
  modification time of the file it was read from. A model entry is a dictionary; the
  only key the service reads is \<^verbatim>\<open>cmd\<close>. What \<^verbatim>\<open>reload\<close> finds on disk is an input
  of the model: the file is absent, or reading it raises (\<^verbatim>\<open>os.stat\<close>, \<^verbatim>\<open>open\<close> or
  \<^verbatim>\<open>yaml.safe_load\<close>), or it yields a document. A document that is not a mapping has
  no \<^verbatim>\<open>get\<close>, so \<^verbatim>\<open>data.get("models", {})\<close> raises as well; a mapping has a \<^verbatim>\<open>models\<close>
  entry or not. The \<^verbatim>\<open>models\<close> entry is taken to be a mapping of model entries, as
  the configuration schema says. The message printed is returned with the new state.
\<close>

type_synonym model_conf = "string \<rightharpoonup> string"

record config_manager =
  models :: "string \<rightharpoonup> model_conf"
  last_mtime :: rat

datatype yaml_doc = Not_a_mapping | Mapping "(string \<rightharpoonup> model_conf) option"

datatype config_file = Absent | Unreadable | Loaded rat yaml_doc

datatype config_msg = Msg_not_found | Msg_loaded | Msg_failed

fun reload :: "config_file \<Rightarrow> config_manager \<Rightarrow> config_manager \<times> config_msg" where
  "reload Absent cm = (cm\<lparr>models := Map.empty\<rparr>, Msg_not_found)"
| "reload Unreadable cm = (cm, Msg_failed)"
| "reload (Loaded mtime Not_a_mapping) cm = (cm, Msg_failed)"
| "reload (Loaded mtime (Mapping None)) cm =
     (cm\<lparr>models := Map.empty, last_mtime := mtime\<rparr>, Msg_loaded)"
| "reload (Loaded mtime (Mapping (Some m))) cm =
     (cm\<lparr>models := m, last_mtime := mtime\<rparr>, Msg_loaded)"

text \<open>\<^verbatim>\<open>ConfigManager.__init__\<close>: an empty mapping, then the initial load.\<close>

definition config_manager_init :: "config_file \<Rightarrow> config_manager \<times> config_msg" where
  "config_manager_init f = reload f \<lparr>models = Map.empty, last_mtime = 0\<rparr>"

definition get_models :: "config_manager \<Rightarrow> (string \<rightharpoonup> model_conf)" where
  "get_models cm = models cm"

section \<open>Shared service state\<close>

text \<open>
  \<^verbatim>\<open>ServiceState\<close>. The process handle is represented by its pid; whether the process
  has exited (\<^verbatim>\<open>poll()\<close>) is asked of the operating system when it is needed, so it is
  an argument of the operations that ask. The lock is not a field: every operation below
  is one critical section, or a sequence of them as the source takes and releases it.
\<close>

record stats_snapshot =
  ctx_used :: int
  ctx_limit :: int
  total_tokens :: int
  prompt_speed :: rat
  gen_speed :: rat

record service_state =
  process :: "nat option"
  current_model :: "string option"
  current_ctx :: int
  current_port :: nat
  default_ctx :: int
  host :: string
  ready :: bool
  logs :: "string list"
  config_mgr :: "config_manager option"
  stats :: stats_snapshot

definition zero_stats :: stats_snapshot where
  "zero_stats = \<lparr>ctx_used = 0, ctx_limit = 0, total_tokens = 0, prompt_speed = 0, gen_speed = 0\<rparr>"

definition init_state :: service_state where
  "init_state = \<lparr>process = None, current_model = None, current_ctx = 0, current_port = 0,
     default_ctx = 4096, host = ''0.0.0.0'', ready = False, logs = [], config_mgr = None,
     stats = zero_stats\<rparr>"

text \<open>The \<^verbatim>\<open>__main__\<close> block: defaults from the command line, then the Configuration Store.\<close>

definition main_init :: "string \<Rightarrow> int \<Rightarrow> config_file \<Rightarrow> service_state" where
  "main_init h c f = init_state\<lparr>default_ctx := c, host := h,
     config_mgr := Some (fst (config_manager_init f))\<rparr>"

section \<open>Process Supervisor\<close>

text \<open>
  \<^verbatim>\<open>_stop_process_unsafe\<close>. With a process handle there are four ways through the
  termination code: the process had exited already; it exits within the grace period
  after \<^verbatim>\<open>SIGTERM\<close>; it does not and the group gets \<^verbatim>\<open>SIGKILL\<close>; the group is gone and
  \<^verbatim>\<open>ProcessLookupError\<close> is caught. All four reach the same assignments. Without a
  handle nothing is executed.
\<close>

datatype term_path = Exited_before | Exited_on_term | Killed_after_grace | Group_gone

definition stop_process_unsafe :: "term_path \<Rightarrow> service_state \<Rightarrow> service_state" where
  "stop_process_unsafe tp s =
     (case process s of
        None \<Rightarrow> s
      | Some p \<Rightarrow> s\<lparr>process := None, current_model := None, current_port := 0,
                    ready := False, stats := zero_stats\<rparr>)"

text \<open>\<^verbatim>\<open>POST /api/stop\<close>, the configuration-change callback and the shutdown hook.\<close>

definition stop_server :: "term_path \<Rightarrow> service_state \<Rightarrow> string \<times> service_state" where
  "stop_server tp s = (''stopped'', stop_process_unsafe tp s)"

definition on_config_change :: "term_path \<Rightarrow> service_state \<Rightarrow> service_state" where
  "on_config_change tp s = stop_process_unsafe tp s"

definition lifespan_shutdown :: "term_path \<Rightarrow> service_state \<Rightarrow> service_state" where
  "lifespan_shutdown tp s = (if process s \<noteq> None then stop_process_unsafe tp s else s)"

text \<open>
  The six replacements of lines 274 to 280, in the order of the source.
\<close>

definition resolve_command :: "string \<Rightarrow> nat \<Rightarrow> int \<Rightarrow> string \<Rightarrow> string" where
  "resolve_command cmd_template p c h =
     replace ''$HOST'' h
       (replace ''$CTX'' (str_int c)
         (replace ''$PORT'' (str_nat p)
           (replace ''${HOST}'' h
             (replace ''${CTX}'' (str_int c)
               (replace ''${PORT}'' (str_nat p) cmd_template)))))"

text \<open>
  \<^verbatim>\<open>_start_model_server\<close>. The operating system supplies the free port
  (\<^verbatim>\<open>find_free_port\<close>, which raises when no socket can be bound), the way the old
  process terminates, and the outcome of the spawn: \<^verbatim>\<open>Popen\<close> returns a handle and the
  monitor thread starts; or \<^verbatim>\<open>Popen\<close> raises; or \<^verbatim>\<open>Popen\<close> returns and creating or
  starting the thread raises, after the three assignments. The handler of both
  exceptions clears the handle only.
\<close>

datatype error = RuntimeError string | ValueError string | OSError

datatype spawn_outcome = Spawned nat | Popen_failed string | Thread_failed nat string

record os_env =
  free_port :: "nat option"
  kill_path :: term_path
  spawn :: spawn_outcome

record start_result =
  port :: nat
  command :: string

definition start_model_server ::
  "os_env \<Rightarrow> string \<Rightarrow> int option \<Rightarrow> service_state \<Rightarrow> (error + start_result) \<times> service_state" where
  "start_model_server env model_key ctx s =
     (case config_mgr s of
        None \<Rightarrow> (Inl (RuntimeError ''Config not initialized''), s)
      | Some cm \<Rightarrow>
        (case get_models cm model_key of
           None \<Rightarrow> (Inl (ValueError ''Model not found in config''), s)
         | Some model_conf \<Rightarrow>
           (let cmd_template = (case model_conf ''cmd'' of None \<Rightarrow> [] | Some t \<Rightarrow> t);
                c = (case ctx of Some n \<Rightarrow> n | None \<Rightarrow> default_ctx s)
            in case free_port env of
                 None \<Rightarrow> (Inl OSError, s)
               | Some p \<Rightarrow>
                 (let cmd_str = resolve_command cmd_template p c (host s);
                      s1 = stop_process_unsafe (kill_path env) s
                  in case spawn env of
                       Popen_failed e \<Rightarrow> (Inl (RuntimeError e), s1\<lparr>process := None\<rparr>)
                     | Thread_failed pid e \<Rightarrow>
                         (Inl (RuntimeError e),
                          s1\<lparr>process := None, current_model := Some model_key,
                             current_ctx := c, current_port := p\<rparr>)
                     | Spawned pid \<Rightarrow>
                         (Inr \<lparr>port = p, command = cmd_str\<rparr>,
                          s1\<lparr>process := Some pid, current_model := Some model_key,
                             current_ctx := c, current_port := p\<rparr>)))))"

text \<open>
  \<^verbatim>\<open>POST /api/start\<close>: \<^verbatim>\<open>ValueError\<close> becomes status 404 and \<^verbatim>\<open>RuntimeError\<close> status
  500; an exception the route does not handle is answered with status 500 as well.
\<close>

record start_request =
  req_model_key :: string
  req_ctx :: "int option"

datatype response =
    Started start_result
  | HTTPException nat string
  | Forwarded string nat string

definition start_server :: "os_env \<Rightarrow> start_request \<Rightarrow> service_state \<Rightarrow> response \<times> service_state" where
  "start_server env req s =
     (case start_model_server env (req_model_key req) (req_ctx req) s of
        (Inr r, s') \<Rightarrow> (Started r, s')
      | (Inl (ValueError e), s') \<Rightarrow> (HTTPException 404 e, s')
      | (Inl (RuntimeError e), s') \<Rightarrow> (HTTPException 500 e, s')
      | (Inl OSError, s') \<Rightarrow> (HTTPException 500 ''Internal Server Error'', s'))"



section \<open>Log Monitor\<close>

text \<open>
  \<^verbatim>\<open>deque(maxlen=2000).append\<close>: a full buffer loses its oldest line.
\<close>

definition log_append :: "string \<Rightarrow> string list \<Rightarrow> string list" where
  "log_append d q = (if 2000 \<le> length q then tl q else q) @ [d]"

text \<open>The four readiness markers of lines 206 to 211.\<close>

definition is_ready_line :: "string \<Rightarrow> bool" where
  "is_ready_line decoded =
     (contains ''main: model loaded'' decoded
      \<or> contains ([CHR 0x22] @ ''msg'' @ [CHR 0x22] @ '':'' @ [CHR 0x22] @ ''model loaded'' @ [CHR 0x22]) decoded
      \<or> contains ''server is listening on'' decoded
      \<or> contains ''main: server is listening'' decoded)"

text \<open>
  The three blocks inside the \<^verbatim>\<open>try\<close> of lines 218 to 244. Each yields \<open>None\<close> when a
  conversion raises: the conversions come before the assignments of their block, so the
  state is then the one the block started with, and the handler skips the blocks after
  it.
\<close>

definition upd_prompt :: "string \<Rightarrow> service_state \<Rightarrow> service_state option" where
  "upd_prompt decoded s =
     (case re_search re_prompt decoded of
        None \<Rightarrow> Some s
      | Some pm \<Rightarrow>
        (case Option.bind (group 1 pm) py_float of
           None \<Rightarrow> None
         | Some val \<Rightarrow> Some (s\<lparr>stats := (stats s)\<lparr>prompt_speed := val\<rparr>\<rparr>)))"

definition upd_eval :: "string \<Rightarrow> service_state \<Rightarrow> service_state option" where
  "upd_eval decoded s =
     (case re_search re_eval decoded of
        None \<Rightarrow> Some s
      | Some em \<Rightarrow>
        (case Option.bind (group 1 em) py_int of
           None \<Rightarrow> None
         | Some tokens_count \<Rightarrow>
           (case Option.bind (group 2 em) py_float of
              None \<Rightarrow> None
            | Some speed_val \<Rightarrow>
                Some (s\<lparr>stats := (stats s)\<lparr>gen_speed := speed_val,
                       total_tokens := total_tokens (stats s) + tokens_count\<rparr>\<rparr>))))"

definition upd_release :: "string \<Rightarrow> service_state \<Rightarrow> service_state option" where
  "upd_release decoded s =
     (case re_search re_release decoded of
        None \<Rightarrow> Some s
      | Some rm \<Rightarrow>
        (case Option.bind (group 1 rm) py_int of
           None \<Rightarrow> None
         | Some used \<Rightarrow>
             Some (s\<lparr>stats := (if 0 < current_ctx s
                                then (stats s)\<lparr>ctx_used := used, ctx_limit := current_ctx s\<rparr>
                                else (stats s)\<lparr>ctx_used := used\<rparr>)\<rparr>)))"

definition parse_stats :: "string \<Rightarrow> service_state \<Rightarrow> service_state" where
  "parse_stats decoded s =
     (case upd_prompt decoded s of
        None \<Rightarrow> s
      | Some s1 \<Rightarrow>
        (case upd_eval decoded s1 of
           None \<Rightarrow> s1
         | Some s2 \<Rightarrow>
           (case upd_release decoded s2 of
              None \<Rightarrow> s2
            | Some s3 \<Rightarrow> s3)))"

text \<open>
  The body of the loop of \<^verbatim>\<open>log_reader\<close> for one line that \<^verbatim>\<open>readline\<close> returned, and
  the loop over the lines read until the stream ends. The monitor writes to the one
  global state, whichever process it was started for.
\<close>

definition process_line :: "string \<Rightarrow> service_state \<Rightarrow> service_state" where
  "process_line line s =
     (let decoded = rstrip line;
          s1 = s\<lparr>logs := log_append decoded (logs s)\<rparr>;
          s2 = (if is_ready_line decoded
                then (if \<not> ready s1 then s1\<lparr>ready := True\<rparr> else s1)
                else s1)
      in parse_stats decoded s2)"

fun log_reader :: "string list \<Rightarrow> service_state \<Rightarrow> service_state" where
  "log_reader [] s = s"
| "log_reader (line # rest) s = log_reader rest (if line \<noteq> [] then process_line line s else s)"

section \<open>Gateway\<close>







section \<open>Operations as events\<close>

text \<open>
  The operations that write the service state, as the events of a run: the two routes
  and the two hooks of the Process Supervisor, and the Log Monitor reading a line.
\<close>

datatype event =
    Ev_start os_env string "int option"
  | Ev_stop term_path
  | Ev_config_change term_path
  | Ev_shutdown term_path
  | Ev_line string

fun step :: "event \<Rightarrow> service_state \<Rightarrow> service_state" where
  "step (Ev_start env k c) s = snd (start_model_server env k c s)"
| "step (Ev_stop tp) s = snd (stop_server tp s)"
| "step (Ev_config_change tp) s = on_config_change tp s"
| "step (Ev_shutdown tp) s = lifespan_shutdown tp s"
| "step (Ev_line l) s = log_reader [l] s"

fun run :: "event list \<Rightarrow> service_state \<Rightarrow> service_state" where
  "run [] s = s"
| "run (e # es) s = run es (step e s)"

section \<open>Comparing the two timing patterns\<close>






section \<open>Templates as segments\<close>

text \<open>
  What the specification says of the command template, in its own words: a template is
  text with placeholders in it, each written with braces or with a bare dollar, and
  resolving it puts the allocated port, the context size and the bind host in their
  places, all at once. \<open>tokenize\<close> reads a template from left to right into its
  segments, one character of text at a time; \<open>template_of\<close> writes the segments back;
  \<open>substituted\<close> writes them with the values in place of the placeholders. These
  definitions follow the specification and are compared below with the six successive
  replacements of the source.
\<close>

datatype placeholder = PORT | CTX | HOST









section \<open>Example inputs\<close>

text \<open>
  A configuration with two models, the state after the \<^verbatim>\<open>__main__\<close> block has run on
  it, an operating system that hands out port 8080 and pid 4242, and the state after
  \<^verbatim>\<open>start("a")\<close>. \<open>ready_raw\<close> and \<open>eval_raw\<close> are two lines as \<^verbatim>\<open>readline\<close> returns
  them. In \<open>stale_state\<close> the backend has been stopped and its monitor thread, which
  \<^verbatim>\<open>_stop_process_unsafe\<close> does not join, then handles two lines the process had
  written before it was stopped.
\<close>

definition example_models :: "string \<rightharpoonup> model_conf" where
  "example_models =
     [''a'' \<mapsto> [''cmd'' \<mapsto> ''run --port ${PORT}''],
      ''b'' \<mapsto> [''cmd'' \<mapsto> ''srv -c $CTX --host ${HOST} -p $PORT'']]"

definition example_state :: service_state where
  "example_state = main_init ''localhost'' 4096 (Loaded 1 (Mapping (Some example_models)))"

definition example_env :: os_env where
  "example_env = \<lparr>free_port = Some 8080, kill_path = Exited_on_term, spawn = Spawned 4242\<rparr>"

definition running_state :: service_state where
  "running_state = snd (start_model_server example_env ''a'' None example_state)"

definition eval_line :: string where
  "eval_line = ''eval time =     100.00 ms /     5 tokens (   20.00 ms per token,    50.00 tokens per second)''"

definition indented_eval_line :: string where
  "indented_eval_line = ''       '' @ eval_line"

definition ready_raw :: string where
  "ready_raw = ''main: model loaded'' @ [CHR 0x0A]"

definition eval_raw :: string where
  "eval_raw = indented_eval_line @ [CHR 0x0A]"

definition stale_state :: service_state where
  "stale_state =
     log_reader [ready_raw, eval_raw]
       (stop_process_unsafe Exited_on_term running_state)"

definition bare_eval_raw :: string where
  "bare_eval_raw = eval_line @ [CHR 0x0A]"

definition busy_state :: service_state where
  "busy_state = log_reader [eval_raw] running_state"









section \<open>Evaluation rules kept out of the simplifier\<close>

text \<open>
  The equations of \<open>str_nat\<close>, \<open>tokenize\<close> and \<open>wait_ready\<close> unfold themselves on symbolic
  arguments; they are used only where they are named.
\<close>

declare str_nat.simps [simp del]



section \<open>Facts about the example inputs\<close>

lemma example_state_eq:
  "example_state = \<lparr>process = None, current_model = None, current_ctx = 0, current_port = 0,
     default_ctx = 4096, host = ''localhost'', ready = False, logs = [],
     config_mgr = Some \<lparr>models = example_models, last_mtime = 1\<rparr>, stats = zero_stats\<rparr>"
  by (simp add: example_state_def main_init_def init_state_def config_manager_init_def)

lemma running_state_eq:
  "running_state = \<lparr>process = Some 4242, current_model = Some ''a'', current_ctx = 4096,
     current_port = 8080, default_ctx = 4096, host = ''localhost'', ready = False, logs = [],
     config_mgr = Some \<lparr>models = example_models, last_mtime = 1\<rparr>, stats = zero_stats\<rparr>"
  by (simp add: running_state_def example_state_eq start_model_server_def get_models_def
      example_models_def example_env_def stop_process_unsafe_def)

lemma rstrip_ready_raw: "rstrip ready_raw = ''main: model loaded''"
  by (simp add: rstrip_def isspace_def ready_raw_def)

lemma ready_raw_nonempty: "ready_raw \<noteq> []"
  by (simp add: ready_raw_def)

lemma model_loaded_ready: "is_ready_line ''main: model loaded''"
  by (simp add: is_ready_line_def)

lemma model_loaded_no_stats: "parse_stats ''main: model loaded'' s = s"
  by (simp add: parse_stats_def upd_prompt_def upd_eval_def upd_release_def
      re_prompt_def re_eval_def re_release_def lits_def isspace_def isdigit_def)

lemma rstrip_eval_raw: "rstrip eval_raw = indented_eval_line"
  by (simp add: rstrip_def isspace_def eval_line_def indented_eval_line_def eval_raw_def)

lemma eval_raw_nonempty: "eval_raw \<noteq> []"
  by (simp add: eval_raw_def)

lemma indented_eval_not_ready: "\<not> is_ready_line indented_eval_line"
  by (simp add: is_ready_line_def eval_line_def indented_eval_line_def)

lemma indented_eval_prompt: "re_search re_prompt indented_eval_line = None"
  by (simp add: re_prompt_def lits_def eval_line_def indented_eval_line_def)

lemma indented_eval_release: "re_search re_release indented_eval_line = None"
  by (simp add: re_release_def lits_def eval_line_def indented_eval_line_def)

lemma indented_eval_groups:
  "\<exists>m. re_search re_eval indented_eval_line = Some m
     \<and> group 1 m = Some ''5'' \<and> group 2 m = Some ''50.00''"
  by (simp add: re_eval_def lits_def eval_line_def indented_eval_line_def isspace_def isdigit_def group_def)

lemma py_int_5: "py_int ''5'' = Some 5"
  by (simp add: py_int_def isdigit_def digits_val_def digit_val_def)

lemma py_float_50: "py_float ''50.00'' = Some 50"
  by (simp add: py_float_def isdigit_def digits_val_def digit_val_def)

lemma indented_eval_stats:
  "parse_stats indented_eval_line s =
     s\<lparr>stats := (stats s)\<lparr>gen_speed := 50, total_tokens := total_tokens (stats s) + 5\<rparr>\<rparr>"
proof -
  obtain m where "re_search re_eval indented_eval_line = Some m"
    and "group 1 m = Some ''5''" and "group 2 m = Some ''50.00''"
    using indented_eval_groups by blast
  then show ?thesis
    by (simp add: parse_stats_def upd_prompt_def upd_eval_def upd_release_def
        indented_eval_prompt indented_eval_release py_int_5 py_float_50)
qed

lemma process_line_ready_raw:
  "process_line ready_raw s =
     (if ready s then s\<lparr>logs := log_append ''main: model loaded'' (logs s)\<rparr>
      else s\<lparr>logs := log_append ''main: model loaded'' (logs s), ready := True\<rparr>)"
  by (simp add: process_line_def rstrip_ready_raw model_loaded_ready model_loaded_no_stats)

lemma process_line_eval_raw:
  "process_line eval_raw s =
     s\<lparr>logs := log_append indented_eval_line (logs s),
       stats := (stats s)\<lparr>gen_speed := 50, total_tokens := total_tokens (stats s) + 5\<rparr>\<rparr>"
  by (simp add: process_line_def rstrip_eval_raw indented_eval_not_ready indented_eval_stats)

lemma stale_state_eq:
  "stale_state = \<lparr>process = None, current_model = None, current_ctx = 4096,
     current_port = 0, default_ctx = 4096, host = ''localhost'', ready = True,
     logs = [''main: model loaded'', indented_eval_line],
     config_mgr = Some \<lparr>models = example_models, last_mtime = 1\<rparr>,
     stats = \<lparr>ctx_used = 0, ctx_limit = 0, total_tokens = 5, prompt_speed = 0, gen_speed = 50\<rparr>\<rparr>"
  by (simp add: stale_state_def running_state_eq stop_process_unsafe_def
      process_line_ready_raw process_line_eval_raw ready_raw_nonempty eval_raw_nonempty
      log_append_def zero_stats_def)

lemma running_state_config:
  "config_mgr running_state = Some \<lparr>models = example_models, last_mtime = 1\<rparr>"
  by (simp add: running_state_eq)

lemma example_models_z: "''z'' \<notin> dom (get_models \<lparr>models = example_models, last_mtime = 1\<rparr>)"
  by (simp add: get_models_def example_models_def)


lemma resolve_command_a:
  "resolve_command ''run --port ${PORT}'' 8080 4096 ''localhost'' = ''run --port 8080''"
  by (simp add: resolve_command_def str_int_def str_nat.simps digit_char_def)

lemma resolve_command_b:
  "resolve_command ''srv -c $CTX --host ${HOST} -p $PORT'' 8080 4096 ''localhost''
     = ''srv -c 4096 --host localhost -p 8080''"
  by (simp add: resolve_command_def str_int_def str_nat.simps digit_char_def)

section \<open>What the Log Monitor and the Supervisor leave unchanged\<close>

text \<open>
  A line changes the log buffer, the readiness flag and the statistics, and nothing
  else; the token counter never goes down on a line.
\<close>

lemma py_int_nonneg: "py_int g = Some n \<Longrightarrow> 0 \<le> n"
  by (auto simp add: py_int_def split: if_splits)

lemma upd_prompt_frame:
  "upd_prompt d s = Some s' \<Longrightarrow>
     s' = s\<lparr>stats := (stats s)\<lparr>prompt_speed := prompt_speed (stats s')\<rparr>\<rparr>"
  by (auto simp add: upd_prompt_def split: option.splits)

lemma upd_eval_frame:
  "upd_eval d s = Some s' \<Longrightarrow>
     \<exists>n\<ge>0. s' = s\<lparr>stats := (stats s)\<lparr>gen_speed := gen_speed (stats s'),
                  total_tokens := total_tokens (stats s) + n\<rparr>\<rparr>"
  by (auto simp add: upd_eval_def split: option.splits Option.bind_splits dest: py_int_nonneg)

lemma upd_release_frame:
  "upd_release d s = Some s' \<Longrightarrow>
     s' = s\<lparr>stats := (stats s)\<lparr>ctx_used := ctx_used (stats s'), ctx_limit := ctx_limit (stats s')\<rparr>\<rparr>"
  by (auto simp add: upd_release_def split: option.splits if_splits)

lemma parse_stats_frame:
  "\<exists>st. parse_stats d s = s\<lparr>stats := st\<rparr> \<and> total_tokens (stats s) \<le> total_tokens st"
proof -
  have refl: "\<And>t. \<exists>st. t = t\<lparr>stats := st\<rparr> \<and> total_tokens (stats t) \<le> total_tokens st"
    by (rule_tac x = "stats t" in exI) simp
  show ?thesis
  proof (cases "upd_prompt d s")
    case None
    then show ?thesis using refl by (simp add: parse_stats_def)
  next
    case (Some s1)
    from upd_prompt_frame [OF Some] obtain st1 where s1: "s1 = s\<lparr>stats := st1\<rparr>"
      and t1: "total_tokens st1 = total_tokens (stats s)"
      by (metis stats_snapshot.select_convs(3) stats_snapshot.surjective stats_snapshot.update_convs(4))
    show ?thesis
    proof (cases "upd_eval d s1")
      case None
      then show ?thesis using Some s1 t1 by (auto simp add: parse_stats_def)
    next
      case (Some s2)
      note e = Some
      from upd_eval_frame [OF Some] s1 t1
      obtain st2 where s2: "s2 = s\<lparr>stats := st2\<rparr>" and t2: "total_tokens (stats s) \<le> total_tokens st2"
        by (auto; metis add_increasing2 order_refl service_state.select_convs(10) service_state.surjective service_state.update_convs(10) stats_snapshot.select_convs(3) stats_snapshot.surjective stats_snapshot.update_convs(3,5))
      show ?thesis
      proof (cases "upd_release d s2")
        case None
        then show ?thesis using \<open>upd_prompt d s = Some s1\<close> e s2 t2 by (auto simp add: parse_stats_def)
      next
        case (Some s3)
        from upd_release_frame [OF Some] s2 t2
        have "\<exists>st3. s3 = s\<lparr>stats := st3\<rparr> \<and> total_tokens (stats s) \<le> total_tokens st3"
          by (metis (no_types, lifting) service_state.select_convs(10) service_state.surjective service_state.update_convs(10) stats_snapshot.select_convs(3) stats_snapshot.surjective stats_snapshot.update_convs(1,2))
        then show ?thesis using \<open>upd_prompt d s = Some s1\<close> e Some by (auto simp add: parse_stats_def)
      qed
    qed
  qed
qed


lemma process_line_frame:
  "\<exists>st. process_line l s =
          s\<lparr>logs := log_append (rstrip l) (logs s),
            ready := ready s \<or> is_ready_line (rstrip l), stats := st\<rparr>
        \<and> total_tokens (stats s) \<le> total_tokens st"
proof -
  let ?s2 = "s\<lparr>logs := log_append (rstrip l) (logs s), ready := ready s \<or> is_ready_line (rstrip l)\<rparr>"
  have "process_line l s = parse_stats (rstrip l) ?s2"
    by (cases s) (auto simp add: process_line_def Let_def)
  moreover obtain st where "parse_stats (rstrip l) ?s2 = ?s2\<lparr>stats := st\<rparr>"
    and "total_tokens (stats ?s2) \<le> total_tokens st"
    using parse_stats_frame [of "rstrip l" ?s2] by blast
  ultimately show ?thesis by auto
qed

lemma process_line_ready: "ready (process_line l s) = (ready s \<or> is_ready_line (rstrip l))"
  using process_line_frame [of l s] by auto


lemma process_line_backend:
  "process (process_line l s) = process s \<and> current_model (process_line l s) = current_model s
   \<and> current_port (process_line l s) = current_port s \<and> current_ctx (process_line l s) = current_ctx s
   \<and> host (process_line l s) = host s"
  using process_line_frame [of l s] by auto







lemma start_success_state:
  assumes "start_model_server env k c s = (Inr r, s')"
  shows "\<exists>pid p. spawn env = Spawned pid \<and> free_port env = Some p \<and> port r = p
     \<and> s' = (stop_process_unsafe (kill_path env) s)\<lparr>process := Some pid, current_model := Some k,
               current_ctx := (case c of Some n \<Rightarrow> n | None \<Rightarrow> default_ctx s), current_port := p\<rparr>"
  using assms
  by (auto simp add: start_model_server_def Let_def split: option.splits spawn_outcome.splits)

section \<open>States of a run\<close>

text \<open>
  In every run whose starts do not fail while starting the monitor thread, a state
  without a process handle has no model key: a stop clears both, and a start sets both.
  The one state without a handle but with a model key is the one the exception handler
  of \<^verbatim>\<open>_start_model_server\<close> leaves when the thread cannot be started.
\<close>

lemma step_keeps_key_invariant:
  assumes "process s \<noteq> None \<or> current_model s = None"
    and "\<forall>env k c pid m. e = Ev_start env k c \<longrightarrow> spawn env \<noteq> Thread_failed pid m"
  shows "process (step e s) \<noteq> None \<or> current_model (step e s) = None"
proof (cases e)
  case (Ev_start env k c)
  then show ?thesis
    using assms
    by (auto simp add: start_model_server_def stop_process_unsafe_def Let_def
        split: option.splits spawn_outcome.splits)
next
  case (Ev_stop tp)
  then show ?thesis
    using assms(1) by (auto simp add: stop_server_def stop_process_unsafe_def split: option.splits)
next
  case (Ev_config_change tp)
  then show ?thesis
    using assms(1) by (auto simp add: on_config_change_def stop_process_unsafe_def split: option.splits)
next
  case (Ev_shutdown tp)
  then show ?thesis
    using assms(1) by (auto simp add: lifespan_shutdown_def stop_process_unsafe_def split: option.splits)
next
  case (Ev_line l)
  then show ?thesis
    using assms(1) by (simp add: process_line_backend)
qed

lemma run_keeps_key_invariant:
  assumes "process s \<noteq> None \<or> current_model s = None"
    and "\<forall>e \<in> set es. \<forall>env k c pid m. e = Ev_start env k c \<longrightarrow> spawn env \<noteq> Thread_failed pid m"
  shows "process (run es s) \<noteq> None \<or> current_model (run es s) = None"
  using assms
proof (induction es arbitrary: s)
  case Nil
  then show ?case by simp
next
  case (Cons e es)
  have "process (step e s) \<noteq> None \<or> current_model (step e s) = None"
    using Cons.prems by (intro step_keeps_key_invariant) auto
  then show ?case using Cons by simp
qed

section \<open>Stopping the backend\<close>

text \<open>
  Claim C1, as amended. \<^verbatim>\<open>stop()\<close> never fails, whichever way the termination code is
  left. Without a process handle it changes nothing at all. With a handle it clears the
  model key, the port and the readiness flag and sets every field of the statistics to
  zero, in the one step that also drops the handle. After every call there is no handle,
  and a second call changes nothing more.
\<close>

theorem stop_process_unsafe_idempotent:
  "(process s = None \<longrightarrow> stop_process_unsafe tp s = s)
   \<and> (process s \<noteq> None \<longrightarrow>
        current_model (stop_process_unsafe tp s) = None
        \<and> current_port (stop_process_unsafe tp s) = 0
        \<and> ready (stop_process_unsafe tp s) = False
        \<and> stats (stop_process_unsafe tp s) =
            \<lparr>ctx_used = 0, ctx_limit = 0, total_tokens = 0, prompt_speed = 0, gen_speed = 0\<rparr>)
   \<and> process (stop_process_unsafe tp s) = None
   \<and> stop_process_unsafe tp' (stop_process_unsafe tp s) = stop_process_unsafe tp s"
  by (simp add: stop_process_unsafe_def zero_stats_def split: option.splits)

text \<open>The two cases of C1 at the stale and the running example states.\<close>

theorem stop_process_unsafe_idempotent_witness:
  "process stale_state = None
   \<and> stop_process_unsafe Group_gone stale_state = stale_state
   \<and> process running_state \<noteq> None
   \<and> current_model (stop_process_unsafe Killed_after_grace running_state) = None
   \<and> current_port (stop_process_unsafe Killed_after_grace running_state) = 0
   \<and> ready (stop_process_unsafe Killed_after_grace running_state) = False
   \<and> total_tokens (stats (stop_process_unsafe Killed_after_grace running_state)) = 0"
  using stop_process_unsafe_idempotent [of stale_state Group_gone Group_gone]
    stop_process_unsafe_idempotent [of running_state Killed_after_grace Group_gone]
  by (simp add: stale_state_eq running_state_eq)

text \<open>
  Claim C1 as stated fails: it promises a cleared readiness flag and zero statistics
  after every call. In \<open>stale_state\<close> there is no handle, the flag is set and five tokens
  are counted; \<^verbatim>\<open>stop()\<close> finds no handle and leaves all of it.
\<close>

theorem stop_on_stopped_backend_counterexample:
  "process stale_state = None
   \<and> ready (snd (stop_server Exited_on_term stale_state)) = True
   \<and> total_tokens (stats (snd (stop_server Exited_on_term stale_state))) = 5
   \<and> gen_speed (stats (snd (stop_server Exited_on_term stale_state))) = 50"
  by (simp add: stale_state_eq stop_server_def stop_process_unsafe_def)



section \<open>Starting with an unknown key\<close>

text \<open>
  Claim C2. When the Configuration Store holds a mapping and the model key is not in
  it, \<^verbatim>\<open>start(key, ctx)\<close> raises \<^verbatim>\<open>ValueError("Model not found in config")\<close>, which the
  route answers with status 404, and the service state after the call is the state
  before it: process, model key, port, readiness flag, statistics and log buffer.
\<close>

theorem start_unknown_key_no_mutation:
  assumes "config_mgr s = Some cm" and "model_key \<notin> dom (get_models cm)"
  shows "start_model_server env model_key ctx s = (Inl (ValueError ''Model not found in config''), s)
     \<and> start_server env \<lparr>req_model_key = model_key, req_ctx = ctx\<rparr> s
         = (HTTPException 404 ''Model not found in config'', s)"
  using assms by (auto simp add: start_model_server_def start_server_def)

text \<open>C2 for the key \<^verbatim>\<open>z\<close> while model \<^verbatim>\<open>a\<close> is running.\<close>

theorem start_unknown_key_no_mutation_witness:
  "config_mgr running_state = Some \<lparr>models = example_models, last_mtime = 1\<rparr>
   \<and> ''z'' \<notin> dom (get_models \<lparr>models = example_models, last_mtime = 1\<rparr>)
   \<and> start_model_server example_env ''z'' (Some 512) running_state
       = (Inl (ValueError ''Model not found in config''), running_state)
   \<and> start_server example_env \<lparr>req_model_key = ''z'', req_ctx = Some 512\<rparr> running_state
       = (HTTPException 404 ''Model not found in config'', running_state)"
  using start_unknown_key_no_mutation [OF running_state_config example_models_z, of example_env "Some 512"]
    running_state_config example_models_z
  by simp

section \<open>Reloading the configuration\<close>

text \<open>
  Claim C8, as amended. Neither a missing nor an unreadable file is fatal, and each
  prints its message. A missing file always leaves the empty mapping. A file that cannot
  be read or parsed, or whose document is not a mapping, leaves the Configuration Store
  as it was before the reload: empty when this is the initial load, otherwise the
  mapping loaded before.
\<close>

theorem reload_missing_or_unparsable:
  "get_models (fst (reload Absent cm)) = Map.empty
   \<and> snd (reload Absent cm) = Msg_not_found
   \<and> reload Unreadable cm = (cm, Msg_failed)
   \<and> reload (Loaded mtime Not_a_mapping) cm = (cm, Msg_failed)
   \<and> get_models (fst (config_manager_init Unreadable)) = Map.empty
   \<and> get_models (fst (config_manager_init (Loaded mtime Not_a_mapping))) = Map.empty"
  by (simp add: get_models_def config_manager_init_def)

text \<open>
  Claim C8 as stated fails: after a reload whose parse raises, the two models loaded
  before are still there.
\<close>

theorem reload_unparsable_counterexample:
  "snd (reload Unreadable \<lparr>models = example_models, last_mtime = 1\<rparr>) = Msg_failed
   \<and> get_models (fst (reload Unreadable \<lparr>models = example_models, last_mtime = 1\<rparr>)) ''a''
       = Some [''cmd'' \<mapsto> ''run --port ${PORT}'']
   \<and> get_models (fst (reload Unreadable \<lparr>models = example_models, last_mtime = 1\<rparr>)) \<noteq> Map.empty"
proof -
  have a: "get_models (fst (reload Unreadable \<lparr>models = example_models, last_mtime = 1\<rparr>)) ''a''
       = Some [''cmd'' \<mapsto> ''run --port ${PORT}'']"
    by (simp add: get_models_def example_models_def)
  then have "get_models (fst (reload Unreadable \<lparr>models = example_models, last_mtime = 1\<rparr>)) \<noteq> Map.empty"
    by (metis option.distinct(1))
  with a show ?thesis by simp
qed

section \<open>The token counter\<close>




section \<open>The readiness flag\<close>

text \<open>
  Neither \<^verbatim>\<open>_start_model_server\<close> nor \<^verbatim>\<open>_stop_process_unsafe\<close> ever sets the flag; a stop
  that finds a process handle clears it.
\<close>

lemma start_keeps_ready:
  "ready (snd (start_model_server env k c s)) \<Longrightarrow> ready s"
  by (auto simp add: start_model_server_def stop_process_unsafe_def Let_def
      split: option.splits spawn_outcome.splits)

lemma stop_keeps_ready: "ready (stop_process_unsafe tp s) \<Longrightarrow> ready s"
  by (auto simp add: stop_process_unsafe_def split: option.splits)

lemma step_sets_ready:
  assumes "ready (step e s)" and "\<not> ready s"
  shows "\<exists>l. e = Ev_line l \<and> l \<noteq> [] \<and> is_ready_line (rstrip l)"
proof (cases e)
  case (Ev_start env k c)
  then show ?thesis using assms start_keeps_ready by auto
next
  case (Ev_stop tp)
  then show ?thesis using assms stop_keeps_ready by (auto simp add: stop_server_def)
next
  case (Ev_config_change tp)
  then show ?thesis using assms stop_keeps_ready by (auto simp add: on_config_change_def)
next
  case (Ev_shutdown tp)
  then show ?thesis using assms stop_keeps_ready
    by (auto simp add: lifespan_shutdown_def split: if_splits)
next
  case (Ev_line l)
  then show ?thesis using assms by (auto simp add: process_line_ready split: if_splits)
qed

lemma start_clears_ready:
  assumes "start_model_server env k c s = (Inr r, s')" and "process s \<noteq> None \<or> \<not> ready s"
  shows "\<not> ready s'"
  using start_success_state [OF assms(1)] assms(2)
  by (auto simp add: stop_process_unsafe_def split: option.splits)

lemma second_ready_line:
  assumes "ready s"
  shows "\<exists>st. process_line l s = s\<lparr>logs := log_append (rstrip l) (logs s), stats := st\<rparr>"
proof -
  obtain st where "process_line l s =
      s\<lparr>logs := log_append (rstrip l) (logs s), ready := ready s \<or> is_ready_line (rstrip l), stats := st\<rparr>"
    using process_line_frame [of l s] by blast
  moreover have "s\<lparr>logs := log_append (rstrip l) (logs s), ready := ready s \<or> is_ready_line (rstrip l), stats := st\<rparr>
     = s\<lparr>logs := log_append (rstrip l) (logs s), stats := st\<rparr>"
    using assms by (cases s) simp
  ultimately show ?thesis by auto
qed

text \<open>
  Claim C3, as amended. After a successful \<^verbatim>\<open>start()\<close> the readiness flag is false
  whenever a process handle existed before the call or the flag was false before it.
  The only event that turns the flag from false to true is the Log Monitor processing a
  line that contains a readiness marker, and a line never turns it back. When the flag
  is set already, a line changes nothing but the log buffer, to which it is appended,
  and the statistics; the line \<^verbatim>\<open>main: model loaded\<close> then changes the log buffer only.
\<close>

theorem readiness_one_way:
  "(start_model_server env k c s = (Inr r, s') \<and> (process s \<noteq> None \<or> \<not> ready s) \<longrightarrow> \<not> ready s')
   \<and> (\<not> ready s \<and> ready (step e s) \<longrightarrow> (\<exists>l. e = Ev_line l \<and> l \<noteq> [] \<and> is_ready_line (rstrip l)))
   \<and> ready (process_line l s) = (ready s \<or> is_ready_line (rstrip l))
   \<and> (ready s \<longrightarrow>
        (\<exists>st. process_line l s = s\<lparr>logs := log_append (rstrip l) (logs s), stats := st\<rparr>)
        \<and> process_line ready_raw s = s\<lparr>logs := log_append ''main: model loaded'' (logs s)\<rparr>)"
  using start_clears_ready [of env k c s r s'] step_sets_ready [of e s]
    process_line_ready [of l s] second_ready_line [of s l] process_line_ready_raw [of s]
  by auto

text \<open>
  C3 on the example: the flag is false after \<^verbatim>\<open>start("a")\<close>, the line
  \<^verbatim>\<open>main: model loaded\<close> sets it, and the same line again only grows the log buffer.
\<close>

theorem readiness_one_way_witness:
  "start_model_server example_env ''a'' None example_state
     = (Inr \<lparr>port = 8080, command = ''run --port 8080''\<rparr>, running_state)
   \<and> \<not> ready example_state \<and> \<not> ready running_state
   \<and> ready (step (Ev_line ready_raw) running_state)
   \<and> ready_raw \<noteq> [] \<and> is_ready_line (rstrip ready_raw)
   \<and> process_line ready_raw (step (Ev_line ready_raw) running_state)
       = (step (Ev_line ready_raw) running_state)
           \<lparr>logs := log_append ''main: model loaded'' (logs (step (Ev_line ready_raw) running_state))\<rparr>"
proof -
  have st: "start_model_server example_env ''a'' None example_state
     = (Inr \<lparr>port = 8080, command = ''run --port 8080''\<rparr>, running_state)"
    by (simp add: running_state_def example_state_eq start_model_server_def get_models_def
        example_models_def example_env_def stop_process_unsafe_def resolve_command_a)
  have e: "\<not> ready example_state" by (simp add: example_state_eq)
  have a: "\<not> ready running_state"
    using readiness_one_way [of example_env "''a''" None example_state _ running_state] st e by blast
  have b: "ready (step (Ev_line ready_raw) running_state)"
    by (simp add: process_line_ready_raw ready_raw_nonempty running_state_eq)
  have c: "ready_raw \<noteq> [] \<and> is_ready_line (rstrip ready_raw)"
    using readiness_one_way [of _ _ _ running_state _ _ "Ev_line ready_raw"] a b by blast
  have d: "process_line ready_raw (step (Ev_line ready_raw) running_state)
       = (step (Ev_line ready_raw) running_state)
           \<lparr>logs := log_append ''main: model loaded'' (logs (step (Ev_line ready_raw) running_state))\<rparr>"
    using readiness_one_way [of _ _ _ "step (Ev_line ready_raw) running_state"] b by blast
  show ?thesis using st e a b c d by blast
qed

text \<open>
  Claim C3 as stated fails twice. In \<open>stale_state\<close> there is no process handle and the
  flag is set, so the stop inside \<^verbatim>\<open>start("b")\<close> does nothing and the flag is true
  immediately after the successful start. And a qualifying line that finds the flag set
  still changes the state: the log buffer has grown.
\<close>

theorem readiness_after_start_counterexample:
  "start_model_server example_env ''b'' None stale_state
     = (Inr \<lparr>port = 8080, command = ''srv -c 4096 --host localhost -p 8080''\<rparr>,
        stale_state\<lparr>process := Some 4242, current_model := Some ''b'', current_port := 8080\<rparr>)
   \<and> ready (stale_state\<lparr>process := Some 4242, current_model := Some ''b'', current_port := 8080\<rparr>)
   \<and> logs (process_line ready_raw stale_state) \<noteq> logs stale_state"
  by (simp add: stale_state_eq start_model_server_def get_models_def example_models_def
      example_env_def stop_process_unsafe_def resolve_command_b
      process_line_ready_raw log_append_def)

section \<open>The readiness poll of the Gateway\<close>




section \<open>The evaluation line of the scenario\<close>

text \<open>
  White space before a line is skipped by the substring tests and by the patterns that
  begin with a letter, and is swallowed by the \<^verbatim>\<open>\s+\<close> at the head of \<open>re_eval\<close>.
\<close>

lemma contains_skip:
  "\<forall>c \<in> set ws. c \<noteq> a \<Longrightarrow> contains (a # p) (ws @ t) = contains (a # p) t"
  by (induction ws) auto

lemma re_search_skip:
  "\<forall>c \<in> set ws. c \<noteq> a \<Longrightarrow> re_search (Lit a # r) (ws @ t) = re_search (Lit a # r) t"
  by (induction ws) auto

lemma re_match_star_spaces:
  "list_all isspace ws \<Longrightarrow> re_match (Star Space # r) t = Some m
     \<Longrightarrow> re_match (Star Space # r) (ws @ t) = Some m"
  by (induction ws) auto

lemma isspace_not_letter:
  "isspace c \<Longrightarrow> c \<noteq> CHR ''m'' \<and> c \<noteq> CHR ''s'' \<and> c \<noteq> CHR ''p'' \<and> c \<noteq> CHR 0x22"
  by (auto simp add: isspace_def)

lemma bare_eval_not_ready: "\<not> is_ready_line eval_line"
  by (simp add: is_ready_line_def eval_line_def)

lemma bare_eval_prompt: "re_search re_prompt eval_line = None"
  by (simp add: re_prompt_def lits_def eval_line_def)

lemma bare_eval_release: "re_search re_release eval_line = None"
  by (simp add: re_release_def lits_def eval_line_def)

lemma bare_eval_eval: "re_search re_eval eval_line = None"
  by (simp add: re_eval_def lits_def eval_line_def isspace_def)

lemma bare_eval_tail:
  "\<exists>m. re_match (Star Space # tl re_eval) eval_line = Some m
     \<and> group 1 m = Some ''5'' \<and> group 2 m = Some ''50.00''"
  by (simp add: re_eval_def lits_def eval_line_def isspace_def isdigit_def group_def)

lemma re_eval_head: "re_eval = Plus Space # tl re_eval"
  by (simp add: re_eval_def)

lemma re_prompt_head: "re_prompt = Lit CHR ''p'' # tl re_prompt"
  by (simp add: re_prompt_def lits_def)

lemma re_release_head: "re_release = Lit CHR ''s'' # tl re_release"
  by (simp add: re_release_def lits_def)

lemma spaced_eval_not_ready:
  assumes "list_all isspace ws"
  shows "\<not> is_ready_line (ws @ eval_line)"
proof -
  have "\<forall>c \<in> set ws. c \<noteq> CHR ''m''" "\<forall>c \<in> set ws. c \<noteq> CHR ''s''" "\<forall>c \<in> set ws. c \<noteq> CHR 0x22"
    using assms isspace_not_letter by (auto simp add: list_all_iff)
  then show ?thesis
    using bare_eval_not_ready by (simp add: is_ready_line_def contains_skip)
qed

lemma spaced_eval_prompt:
  assumes "list_all isspace ws"
  shows "re_search re_prompt (ws @ eval_line) = None"
proof -
  have "\<forall>c \<in> set ws. c \<noteq> CHR ''p''"
    using assms isspace_not_letter by (auto simp add: list_all_iff)
  then have "re_search (Lit CHR ''p'' # tl re_prompt) (ws @ eval_line)
      = re_search (Lit CHR ''p'' # tl re_prompt) eval_line"
    by (rule re_search_skip)
  then show ?thesis using bare_eval_prompt re_prompt_head by simp
qed

lemma spaced_eval_release:
  assumes "list_all isspace ws"
  shows "re_search re_release (ws @ eval_line) = None"
proof -
  have "\<forall>c \<in> set ws. c \<noteq> CHR ''s''"
    using assms isspace_not_letter by (auto simp add: list_all_iff)
  then have "re_search (Lit CHR ''s'' # tl re_release) (ws @ eval_line)
      = re_search (Lit CHR ''s'' # tl re_release) eval_line"
    by (rule re_search_skip)
  then show ?thesis using bare_eval_release re_release_head by simp
qed

lemma spaced_eval_eval:
  assumes "ws \<noteq> []" and "list_all isspace ws"
  shows "\<exists>m. re_search re_eval (ws @ eval_line) = Some m
     \<and> group 1 m = Some ''5'' \<and> group 2 m = Some ''50.00''"
proof -
  obtain c ws' where ws: "ws = c # ws'" using assms(1) by (cases ws) auto
  with assms(2) have c: "isspace c" and ws': "list_all isspace ws'" by auto
  obtain m where m: "re_match (Star Space # tl re_eval) eval_line = Some m"
    and g: "group 1 m = Some ''5''" "group 2 m = Some ''50.00''"
    using bare_eval_tail by blast
  have "re_match (Star Space # tl re_eval) (ws' @ eval_line) = Some m"
    using ws' m by (rule re_match_star_spaces)
  then have "re_match (Plus Space # tl re_eval) (c # ws' @ eval_line) = Some m"
    using c by simp
  then have "re_search re_eval (ws @ eval_line) = Some m"
    using ws re_eval_head by simp
  with g show ?thesis by blast
qed

lemma rstrip_bare_eval_raw: "rstrip bare_eval_raw = eval_line"
  by (simp add: rstrip_def isspace_def eval_line_def bare_eval_raw_def)

text \<open>
  Claim C7, as amended. When the line of the scenario comes with at least one white
  space character before \<^verbatim>\<open>eval time\<close>, as \<open>re_eval\<close> demands with its leading \<^verbatim>\<open>\s+\<close>,
  the Log Monitor appends it to the log buffer, replaces \<^verbatim>\<open>gen_speed\<close> by 50 and adds 5
  to \<^verbatim>\<open>total_tokens\<close>. The line exactly as the scenario writes it, with nothing before
  \<^verbatim>\<open>eval time\<close>, is appended to the log buffer and changes nothing else.
\<close>

theorem eval_line_needs_leading_space:
  "(rstrip l = ws @ eval_line \<and> ws \<noteq> [] \<and> list_all isspace ws \<longrightarrow>
      process_line l s =
        s\<lparr>logs := log_append (ws @ eval_line) (logs s),
          stats := (stats s)\<lparr>gen_speed := 50, total_tokens := total_tokens (stats s) + 5\<rparr>\<rparr>)
   \<and> (rstrip l = eval_line \<longrightarrow> process_line l s = s\<lparr>logs := log_append eval_line (logs s)\<rparr>)"
proof (intro conjI impI)
  assume h: "rstrip l = ws @ eval_line \<and> ws \<noteq> [] \<and> list_all isspace ws"
  obtain m where "re_search re_eval (ws @ eval_line) = Some m"
    and "group 1 m = Some ''5''" and "group 2 m = Some ''50.00''"
    using spaced_eval_eval h by blast
  then have "parse_stats (ws @ eval_line) s' =
      s'\<lparr>stats := (stats s')\<lparr>gen_speed := 50, total_tokens := total_tokens (stats s') + 5\<rparr>\<rparr>" for s'
    using h by (simp add: parse_stats_def upd_prompt_def upd_eval_def upd_release_def
        spaced_eval_prompt spaced_eval_release py_int_5 py_float_50)
  then show "process_line l s =
        s\<lparr>logs := log_append (ws @ eval_line) (logs s),
          stats := (stats s)\<lparr>gen_speed := 50, total_tokens := total_tokens (stats s) + 5\<rparr>\<rparr>"
    using h by (simp add: process_line_def spaced_eval_not_ready)
next
  assume h: "rstrip l = eval_line"
  have "parse_stats eval_line s' = s'" for s'
    by (simp add: parse_stats_def upd_prompt_def upd_eval_def upd_release_def
        bare_eval_prompt bare_eval_release bare_eval_eval)
  then show "process_line l s = s\<lparr>logs := log_append eval_line (logs s)\<rparr>"
    using h by (simp add: process_line_def bare_eval_not_ready)
qed

text \<open>
  C7 at the line with seven blanks in front, and at the bare line in a state that has
  counted tokens already.
\<close>

theorem eval_line_needs_leading_space_witness:
  "rstrip eval_raw = ''       '' @ eval_line \<and> list_all isspace ''       ''
   \<and> gen_speed (stats (process_line eval_raw running_state)) = 50
   \<and> total_tokens (stats (process_line eval_raw running_state))
       = total_tokens (stats running_state) + 5
   \<and> rstrip bare_eval_raw = eval_line
   \<and> stats (process_line bare_eval_raw busy_state) = stats busy_state"
proof -
  have a: "rstrip eval_raw = ''       '' @ eval_line"
    using rstrip_eval_raw by (simp add: indented_eval_line_def)
  have b: "list_all isspace ''       ''" and c: "''       '' \<noteq> []"
    by (simp_all add: isspace_def)
  note inst = eval_line_needs_leading_space [of eval_raw "''       ''" running_state]
  have "process_line eval_raw running_state =
        running_state\<lparr>logs := log_append (''       '' @ eval_line) (logs running_state),
          stats := (stats running_state)\<lparr>gen_speed := 50,
            total_tokens := total_tokens (stats running_state) + 5\<rparr>\<rparr>"
    using inst a b c by blast
  then have d: "gen_speed (stats (process_line eval_raw running_state)) = 50
      \<and> total_tokens (stats (process_line eval_raw running_state))
          = total_tokens (stats running_state) + 5"
    by simp
  have "process_line bare_eval_raw busy_state = busy_state\<lparr>logs := log_append eval_line (logs busy_state)\<rparr>"
    using eval_line_needs_leading_space [of bare_eval_raw _ busy_state] rstrip_bare_eval_raw by blast
  then have e: "stats (process_line bare_eval_raw busy_state) = stats busy_state"
    by simp
  show ?thesis using a b d e rstrip_bare_eval_raw by blast
qed

text \<open>
  Claim C7 as stated fails: after the exact line of the scenario, \<^verbatim>\<open>gen_speed\<close> is
  still 0 and \<^verbatim>\<open>total_tokens\<close> has not grown.
\<close>

theorem bare_eval_line_counterexample:
  "rstrip bare_eval_raw = eval_line
   \<and> gen_speed (stats (process_line bare_eval_raw running_state)) = 0
   \<and> total_tokens (stats (process_line bare_eval_raw running_state))
       = total_tokens (stats running_state)
   \<and> stats (process_line bare_eval_raw running_state) = stats running_state"
proof -
  have "parse_stats eval_line s' = s'" for s'
    by (simp add: parse_stats_def upd_prompt_def upd_eval_def upd_release_def
        bare_eval_prompt bare_eval_release bare_eval_eval)
  then have "process_line bare_eval_raw running_state
      = running_state\<lparr>logs := log_append eval_line (logs running_state)\<rparr>"
    by (simp add: process_line_def rstrip_bare_eval_raw bare_eval_not_ready)
  then show ?thesis
    by (simp add: rstrip_bare_eval_raw running_state_eq zero_stats_def)
qed

section \<open>Prompt lines and the evaluation pattern\<close>










































section \<open>Resolving the command template\<close>

text \<open>
  A replacement whose pattern begins with a dollar passes over text without one, and the
  decimal digits of a number hold none.
\<close>

lemma replace_no_dollar:
  "CHR ''$'' \<notin> set t \<Longrightarrow> replace (CHR ''$'' # b) new (t @ r) = t @ replace (CHR ''$'' # b) new r"
  by (induction t) auto



lemma replace_other_dollar:
  assumes "CHR ''$'' \<notin> set q" and "\<not> startswith (CHR ''$'' # b) (CHR ''$'' # q @ r)"
  shows "replace (CHR ''$'' # b) new (CHR ''$'' # q @ r) = CHR ''$'' # q @ replace (CHR ''$'' # b) new r"
  using assms by (simp add: replace_no_dollar)
































end
